theory Spec2Isabelle
  imports Complex_Main "HOL-Library.Log_Nat"
begin

section \<open>The palette customizer: an embedding of \<^verbatim>\<open>src/main.py\<close>\<close>

text \<open>
  The program reads a set of four palette variants, applies a list of edit rules to the
  channels of every color and writes two snapshots. The color arithmetic itself belongs
  to the \<^verbatim>\<open>coloraide\<close> library, which appears here as a record of operations (an
  engine) the program is given.

  The channel values and the values of the rules are Python floats; their arithmetic
  is modelled with its rounding, its infinities and its exception.
\<close>

subsection \<open>Exceptions\<close>

datatype error =
    ZeroDivisionError
  | ValueError
  | ValidationError string

subsection \<open>Python floats\<close>

text \<open>
  A \<^verbatim>\<open>float\<close> is an IEEE 754 binary64 number: a finite number, an infinity (\<open>True\<close>
  for the positive one) or NaN. A finite float is given by the rational it denotes. The
  sign of a zero is not kept; the program does not read it, since a division by either
  zero raises.
\<close>

datatype pyfloat = Finite rat | Infinity bool | NaN

definition pow2 :: "int \<Rightarrow> rat" where
  "pow2 e = (if 0 \<le> e then 2 ^ nat e else 1 / 2 ^ nat (- e))"

text \<open>The exponent \<open>e\<close> with \<open>2\<^sup>e \<le> x < 2\<^sup>e\<^sup>+\<^sup>1\<close>, for a positive \<open>x\<close>.\<close>

definition floor_log2 :: "rat \<Rightarrow> int" where
  "floor_log2 x =
     (let (p, q) = quotient_of x; e = bitlen p - bitlen q
      in if pow2 e \<le> x then e else e - 1)"

definition round_half_even :: "rat \<Rightarrow> int" where
  "round_half_even r =
     (let f = \<lfloor>r\<rfloor>; d = r - of_int f
      in if d < 1 / 2 then f else if 1 / 2 < d then f + 1 else if even f then f else f + 1)"

text \<open>
  The float nearest to the exact result \<open>x\<close>, ties to even. A float has 53 significant
  bits, so its spacing at the exponent \<open>e\<close> is \<open>2\<^sup>e\<^sup>-\<^sup>5\<^sup>2\<close>; the least exponent is \<open>-1022\<close>
  and the spacing below it stays \<open>2\<^sup>-\<^sup>1\<^sup>0\<^sup>7\<^sup>4\<close>; a result that rounds to \<open>2\<^sup>1\<^sup>0\<^sup>2\<^sup>4\<close> or more
  is an infinity.
\<close>

definition round64 :: "rat \<Rightarrow> pyfloat" where
  "round64 x =
     (if x = 0 then Finite 0
      else
        (let e = max (floor_log2 \<bar>x\<bar>) (- 1022);
             q = pow2 (e - 52);
             m = round_half_even (\<bar>x\<bar> / q)
         in if 1024 \<le> e \<or> (e = 1023 \<and> 2 ^ 53 \<le> m) then Infinity (0 < x)
            else Finite (if 0 < x then of_int m * q else - (of_int m * q))))"

text \<open>\<^verbatim>\<open>-a\<close>, \<^verbatim>\<open>a + b\<close>, \<^verbatim>\<open>a - b\<close> and \<^verbatim>\<open>a * b\<close> on floats; none of them raises.\<close>

fun fneg :: "pyfloat \<Rightarrow> pyfloat" where
  "fneg (Finite x) = Finite (- x)"
| "fneg (Infinity s) = Infinity (\<not> s)"
| "fneg NaN = NaN"

fun fadd :: "pyfloat \<Rightarrow> pyfloat \<Rightarrow> pyfloat" where
  "fadd (Finite x) (Finite y) = round64 (x + y)"
| "fadd (Finite x) (Infinity t) = Infinity t"
| "fadd (Infinity s) (Finite y) = Infinity s"
| "fadd (Infinity s) (Infinity t) = (if s = t then Infinity s else NaN)"
| "fadd NaN b = NaN"
| "fadd a NaN = NaN"

fun fsub :: "pyfloat \<Rightarrow> pyfloat \<Rightarrow> pyfloat" where
  "fsub (Finite x) (Finite y) = round64 (x - y)"
| "fsub (Finite x) (Infinity t) = Infinity (\<not> t)"
| "fsub (Infinity s) (Finite y) = Infinity s"
| "fsub (Infinity s) (Infinity t) = (if s = t then NaN else Infinity s)"
| "fsub NaN b = NaN"
| "fsub a NaN = NaN"

fun fmul :: "pyfloat \<Rightarrow> pyfloat \<Rightarrow> pyfloat" where
  "fmul (Finite x) (Finite y) = round64 (x * y)"
| "fmul (Finite x) (Infinity t) = (if x = 0 then NaN else Infinity ((0 < x) = t))"
| "fmul (Infinity s) (Finite y) = (if y = 0 then NaN else Infinity (s = (0 < y)))"
| "fmul (Infinity s) (Infinity t) = Infinity (s = t)"
| "fmul NaN b = NaN"
| "fmul a NaN = NaN"

text \<open>\<^verbatim>\<open>a / b\<close> on floats: a zero divisor raises, whatever the dividend.\<close>

fun py_truediv :: "pyfloat \<Rightarrow> pyfloat \<Rightarrow> error + pyfloat" where
  "py_truediv a (Finite y) =
     (if y = 0 then Inl ZeroDivisionError
      else (case a of
              Finite x \<Rightarrow> Inr (round64 (x / y))
            | Infinity s \<Rightarrow> Inr (Infinity (s = (0 < y)))
            | NaN \<Rightarrow> Inr NaN))"
| "py_truediv (Finite x) (Infinity t) = Inr (Finite 0)"
| "py_truediv (Infinity s) (Infinity t) = Inr NaN"
| "py_truediv NaN (Infinity t) = Inr NaN"
| "py_truediv a NaN = Inr NaN"

subsection \<open>Comparison with an optional value\<close>

text \<open>
  \<^verbatim>\<open>x == y\<close> where \<^verbatim>\<open>x\<close> is an optional value (\<^verbatim>\<open>T | None\<close>) and \<^verbatim>\<open>y\<close> a value of
  type \<^verbatim>\<open>T\<close>: \<^verbatim>\<open>None\<close> equals no string and no boolean.
\<close>

fun py_eq :: "'a option \<Rightarrow> 'a \<Rightarrow> bool" where
  "py_eq None y = False"
| "py_eq (Some x) y = (x = y)"

subsection \<open>Edit rules\<close>

text \<open>\<^verbatim>\<open>Literal['value', 'add', 'multiply']\<close>\<close>

datatype kind = Value | Add | Multiply

text \<open>
  \<^verbatim>\<open>class Edit(msgspec.Struct)\<close>. The field \<^verbatim>\<open>value\<close> is written \<open>value'\<close> and the field
  \<^verbatim>\<open>_inverse_light\<close> is written \<open>inverse_light\<close>.
\<close>

record Edit =
  variable :: string
  value' :: pyfloat
  type :: kind
  name :: "string option"
  accent :: "bool option"
  inverse_light :: bool

text \<open>\<^verbatim>\<open>Edit.__call__\<close>\<close>

definition Edit_call :: "Edit \<Rightarrow> pyfloat \<Rightarrow> error + pyfloat" where
  "Edit_call self v =
     (let inverse = (inverse_light self \<and> variable self \<in> {''l'', ''lightness''}) in
      case type self of
        Value \<Rightarrow> Inr (value' self)
      | Add \<Rightarrow> (let w = (if inverse then fneg (value' self) else value' self) in Inr (fadd v w))
      | Multiply \<Rightarrow>
          (case (if inverse then py_truediv (Finite 1) (value' self) else Inr (value' self)) of
             Inl e \<Rightarrow> Inl e
           | Inr w \<Rightarrow> Inr (fmul v w)))"

subsection \<open>Configuration, colors and palettes\<close>

text \<open>\<^verbatim>\<open>class Config(msgspec.Struct)\<close>\<close>

record Config =
  color_space :: string
  inverse_edit_light :: bool
  edits :: "Edit list"

text \<open>
  \<^verbatim>\<open>class Color(msgspec.Struct)\<close>; \<open>'c\<close> is the engine's working representation
  (\<^verbatim>\<open>_Color\<close>).
\<close>

record 'c Color =
  hex :: string
  accent :: bool
  color :: 'c

text \<open>
  \<^verbatim>\<open>class Palette(msgspec.Struct)\<close>. The dictionary \<^verbatim>\<open>colors\<close> is a list of entries in
  insertion order. \<^verbatim>\<open>to_hex\<close> returns a \<^verbatim>\<open>Palette\<close> whose entries are strings, so the
  type of the entries is a parameter.
\<close>

record 'v Palette =
  name :: string
  dark :: bool
  colors :: "(string \<times> 'v) list"

text \<open>
  The color engine: the operations of \<^verbatim>\<open>coloraide.Color\<close> the program calls. Each may
  raise.
  \<^item> \<open>parse s\<close> is \<^verbatim>\<open>_Color(s)\<close>;
  \<^item> \<open>convert c space\<close> is \<^verbatim>\<open>c.convert(space)\<close>, a new object;
  \<^item> \<open>set_channel c key f\<close> is \<^verbatim>\<open>c.set(key, f)\<close> with a callable \<^verbatim>\<open>f\<close>;
  \<^item> \<open>to_string c\<close> is \<^verbatim>\<open>c.to_string(hex=True)\<close>.
\<close>

record 'c engine =
  parse :: "string \<Rightarrow> error + 'c"
  convert :: "'c \<Rightarrow> string \<Rightarrow> error + 'c"
  set_channel :: "'c \<Rightarrow> string \<Rightarrow> (pyfloat \<Rightarrow> error + pyfloat) \<Rightarrow> error + 'c"
  to_string :: "'c \<Rightarrow> error + string"

text \<open>\<^verbatim>\<open>Color.__post_init__\<close>\<close>

definition Color_post_init :: "'c engine \<Rightarrow> 'c Color \<Rightarrow> error + 'c Color" where
  "Color_post_init eng self =
     (case parse eng (hex self) of
        Inl e \<Rightarrow> Inl e
      | Inr c \<Rightarrow>
          (case convert eng c ''okhsl'' of
             Inl e \<Rightarrow> Inl e
           | Inr c' \<Rightarrow> Inr (self\<lparr>color := c'\<rparr>)))"

text \<open>\<^verbatim>\<open>Color.edit\<close>\<close>

definition Color_edit :: "'c engine \<Rightarrow> 'c Color \<Rightarrow> string \<Rightarrow> (pyfloat \<Rightarrow> error + pyfloat) \<Rightarrow> error + 'c Color" where
  "Color_edit eng self key f =
     (case set_channel eng (color self) key f of
        Inl e \<Rightarrow> Inl e
      | Inr c \<Rightarrow> Inr (self\<lparr>color := c\<rparr>))"

text \<open>\<^verbatim>\<open>Color.update\<close>\<close>

definition Color_update :: "'c engine \<Rightarrow> 'c Color \<Rightarrow> error + 'c Color" where
  "Color_update eng self =
     (case convert eng (color self) ''srgb'' of
        Inl e \<Rightarrow> Inl e
      | Inr c \<Rightarrow>
          (case to_string eng c of
             Inl e \<Rightarrow> Inl e
           | Inr s \<Rightarrow> Inr (self\<lparr>hex := s\<rparr>)))"

subsection \<open>\<^verbatim>\<open>Palette.edit\<close>\<close>

text \<open>Line 82: the flag of the variant.\<close>

definition variant_inverse :: "Config \<Rightarrow> 'v Palette \<Rightarrow> bool" where
  "variant_inverse conf self = (inverse_edit_light conf \<and> \<not> dark self)"

text \<open>
  Lines 83 to 85: \<^verbatim>\<open>msgspec.structs.replace\<close> builds a new struct from each rule of the
  configuration.
\<close>

definition variant_edits :: "Config \<Rightarrow> 'v Palette \<Rightarrow> Edit list" where
  "variant_edits conf self =
     map (\<lambda>x. x\<lparr>inverse_light := variant_inverse conf self\<rparr>) (edits conf)"

text \<open>Line 91: the test \<^verbatim>\<open>edit.name == name or edit.accent == color.accent\<close>.\<close>

definition edit_applies :: "Edit \<Rightarrow> string \<Rightarrow> 'c Color \<Rightarrow> bool" where
  "edit_applies edit nm c =
     (py_eq (Edit.name edit) nm \<or> py_eq (Edit.accent edit) (Color.accent c))"

text \<open>Lines 90 to 92: the rules, in order, on one color.\<close>

fun apply_edits :: "'c engine \<Rightarrow> Edit list \<Rightarrow> string \<Rightarrow> 'c Color \<Rightarrow> error + 'c Color" where
  "apply_edits eng [] nm c = Inr c"
| "apply_edits eng (edit # rest) nm c =
     (if edit_applies edit nm c
      then (case Color_edit eng c (variable edit) (Edit_call edit) of
              Inl e \<Rightarrow> Inl e
            | Inr c' \<Rightarrow> apply_edits eng rest nm c')
      else apply_edits eng rest nm c)"

text \<open>Lines 87 to 92: the first loop over the entries of the dictionary.\<close>

fun edit_colors ::
  "'c engine \<Rightarrow> string \<Rightarrow> Edit list \<Rightarrow> (string \<times> 'c Color) list
     \<Rightarrow> error + (string \<times> 'c Color) list" where
  "edit_colors eng space es [] = Inr []"
| "edit_colors eng space es ((nm, c) # rest) =
     (case convert eng (color c) space of
        Inl e \<Rightarrow> Inl e
      | Inr w \<Rightarrow>
          (case apply_edits eng es nm (c\<lparr>color := w\<rparr>) of
             Inl e \<Rightarrow> Inl e
           | Inr c' \<Rightarrow>
               (case edit_colors eng space es rest of
                  Inl e \<Rightarrow> Inl e
                | Inr rest' \<Rightarrow> Inr ((nm, c') # rest'))))"

text \<open>Lines 94 and 95: the second loop commits every color.\<close>

fun update_colors :: "'c engine \<Rightarrow> (string \<times> 'c Color) list \<Rightarrow> error + (string \<times> 'c Color) list" where
  "update_colors eng [] = Inr []"
| "update_colors eng ((nm, c) # rest) =
     (case Color_update eng c of
        Inl e \<Rightarrow> Inl e
      | Inr c' \<Rightarrow>
          (case update_colors eng rest of
             Inl e \<Rightarrow> Inl e
           | Inr rest' \<Rightarrow> Inr ((nm, c') # rest')))"

text \<open>
  \<^verbatim>\<open>Palette.edit\<close>. The method works on the variant in place and is handed the
  configuration object. The result is the variant after the call, or the exception
  raised, together with the configuration as it is after the call.
\<close>

definition Palette_edit ::
  "'c engine \<Rightarrow> 'c Color Palette \<Rightarrow> Config \<Rightarrow> (error + 'c Color Palette) \<times> Config" where
  "Palette_edit eng self conf =
     (let es = variant_edits conf self in
      ((case edit_colors eng (color_space conf) es (colors self) of
          Inl e \<Rightarrow> Inl e
        | Inr cs \<Rightarrow>
            (case update_colors eng cs of
               Inl e \<Rightarrow> Inl e
             | Inr cs' \<Rightarrow> Inr (self\<lparr>colors := cs'\<rparr>))),
       conf))"

text \<open>
  \<^verbatim>\<open>Palette.to_hex\<close>. The result is the variant as it is after the call, and the new
  struct \<^verbatim>\<open>msgspec.structs.replace\<close> returns.
\<close>

definition Palette_to_hex :: "'c Color Palette \<Rightarrow> 'c Color Palette \<times> string Palette" where
  "Palette_to_hex self =
     (self,
      \<lparr>name = Palette.name self, dark = dark self,
       colors = map (\<lambda>(nm, c). (nm, hex c @ ''ff'')) (colors self)\<rparr>)"

subsection \<open>The palette set\<close>

text \<open>\<^verbatim>\<open>class Palettes(msgspec.Struct)\<close>\<close>

record 'v Palettes =
  version :: string
  latte :: "'v Palette"
  frappe :: "'v Palette"
  macchiato :: "'v Palette"
  mocha :: "'v Palette"

datatype field_type = T_str | T_Palette

text \<open>\<^verbatim>\<open>msgspec.structs.fields(self)\<close>: the fields in the order of their declaration.\<close>

definition Palettes_fields :: "(string \<times> field_type) list" where
  "Palettes_fields =
     [(''version'', T_str), (''latte'', T_Palette), (''frappe'', T_Palette),
      (''macchiato'', T_Palette), (''mocha'', T_Palette)]"

text \<open>\<^verbatim>\<open>getattr(self, n)\<close> for a field that holds a \<^verbatim>\<open>Palette\<close>.\<close>

definition getattr_Palette :: "'v Palettes \<Rightarrow> string \<Rightarrow> 'v Palette option" where
  "getattr_Palette p n =
     map_of [(''latte'', latte p), (''frappe'', frappe p),
             (''macchiato'', macchiato p), (''mocha'', mocha p)] n"

text \<open>
  The variant in the slot \<open>n\<close> after a method has worked on it in place.
\<close>

definition setattr_Palette :: "'v Palettes \<Rightarrow> string \<Rightarrow> 'v Palette \<Rightarrow> 'v Palettes" where
  "setattr_Palette p n v =
     (if n = ''latte'' then p\<lparr>latte := v\<rparr>
      else if n = ''frappe'' then p\<lparr>frappe := v\<rparr>
      else if n = ''macchiato'' then p\<lparr>macchiato := v\<rparr>
      else if n = ''mocha'' then p\<lparr>mocha := v\<rparr>
      else p)"

text \<open>\<^verbatim>\<open>Palettes.palettes\<close>\<close>

definition Palettes_palettes :: "'v Palettes \<Rightarrow> (string \<times> 'v Palette) list" where
  "Palettes_palettes p =
     List.map_filter
       (\<lambda>(n, t). if t = T_Palette then map_option (Pair n) (getattr_Palette p n) else None)
       Palettes_fields"

text \<open>
  \<^verbatim>\<open>read_palettes\<close>: \<^verbatim>\<open>msgspec.json.decode(..., type=Palettes, strict=False)\<close>. The
  document is a JSON object, here a map from its keys to its values. No field of
  \<^verbatim>\<open>Palettes\<close> has a default, so the decoder requires each of them; keys that are not
  fields are ignored. The decoders of the values, a string and a \<^verbatim>\<open>Palette\<close>, are the
  library's and are parameters.
\<close>

definition required_field :: "(string \<rightharpoonup> 'j) \<Rightarrow> string \<Rightarrow> ('j \<Rightarrow> error + 'a) \<Rightarrow> error + 'a" where
  "required_field doc k dec =
     (case doc k of None \<Rightarrow> Inl (ValidationError k) | Some j \<Rightarrow> dec j)"

definition read_palettes ::
  "('j \<Rightarrow> error + string) \<Rightarrow> ('j \<Rightarrow> error + 'v Palette) \<Rightarrow> (string \<rightharpoonup> 'j)
     \<Rightarrow> error + 'v Palettes" where
  "read_palettes dec_str dec_palette doc =
     (case required_field doc ''version'' dec_str of
        Inl e \<Rightarrow> Inl e
      | Inr ve \<Rightarrow>
     (case required_field doc ''latte'' dec_palette of
        Inl e \<Rightarrow> Inl e
      | Inr la \<Rightarrow>
     (case required_field doc ''frappe'' dec_palette of
        Inl e \<Rightarrow> Inl e
      | Inr fr \<Rightarrow>
     (case required_field doc ''macchiato'' dec_palette of
        Inl e \<Rightarrow> Inl e
      | Inr ma \<Rightarrow>
     (case required_field doc ''mocha'' dec_palette of
        Inl e \<Rightarrow> Inl e
      | Inr mo \<Rightarrow>
          Inr \<lparr>version = ve, latte = la, frappe = fr, macchiato = ma, mocha = mo\<rparr>)))))"

subsection \<open>The encoder and \<^verbatim>\<open>main\<close>\<close>

text \<open>
  What \<^verbatim>\<open>JsonEncoder._palettes\<close> hands to \<^verbatim>\<open>msgspec.json.encode\<close>: the palette set
  itself, or the palette set with each slot replaced by the dictionary from color names
  to hex strings. The replaced slots are listed in the order of the traversal.
\<close>

datatype 'c snapshot =
    Detailed "'c Color Palettes"
  | Flattened string "(string \<times> (string \<times> string) list) list"

text \<open>
  The comprehension \<^verbatim>\<open>{k: v.to_hex().colors for k, v in p.palettes()}\<close>; each variant
  goes back to its slot as \<^verbatim>\<open>to_hex\<close> left it.
\<close>

fun flatten_slots ::
  "'c Color Palettes \<Rightarrow> (string \<times> 'c Color Palette) list
     \<Rightarrow> 'c Color Palettes \<times> (string \<times> (string \<times> string) list) list" where
  "flatten_slots p [] = (p, [])"
| "flatten_slots p ((k, v) # rest) =
     (let (v', flat) = Palette_to_hex v;
          (p', kw) = flatten_slots (setattr_Palette p k v') rest
      in (p', (k, colors flat) # kw))"

text \<open>\<^verbatim>\<open>JsonEncoder._palettes\<close>, with the palette set as it is after the call.\<close>

definition JsonEncoder_palettes ::
  "bool \<Rightarrow> 'c Color Palettes \<Rightarrow> 'c Color Palettes \<times> 'c snapshot" where
  "JsonEncoder_palettes detailed p =
     (if detailed then (p, Detailed p)
      else (let (p', kw) = flatten_slots p (Palettes_palettes p)
            in (p', Flattened (version p) kw)))"

text \<open>Lines 164 and 165 of \<^verbatim>\<open>main\<close>: every variant is edited in place.\<close>

fun edit_all ::
  "'c engine \<Rightarrow> Config \<Rightarrow> 'c Color Palettes \<Rightarrow> (string \<times> 'c Color Palette) list
     \<Rightarrow> (error + 'c Color Palettes) \<times> Config" where
  "edit_all eng conf p [] = (Inr p, conf)"
| "edit_all eng conf p ((k, v) # rest) =
     (case Palette_edit eng v conf of
        (Inl e, conf') \<Rightarrow> (Inl e, conf')
      | (Inr v', conf') \<Rightarrow> edit_all eng conf' (setattr_Palette p k v') rest)"

text \<open>
  \<^verbatim>\<open>main\<close>, from the decoded configuration and palette set: the snapshot written as
  \<^verbatim>\<open>original\<close>, the snapshot written as \<^verbatim>\<open>customized\<close>, and the palette set at the end.
  The encoding of a snapshot to bytes is the library's.
\<close>

definition main ::
  "'c engine \<Rightarrow> bool \<Rightarrow> Config \<Rightarrow> 'c Color Palettes
     \<Rightarrow> error + ('c snapshot \<times> 'c snapshot \<times> 'c Color Palettes)" where
  "main eng detailed conf palettes =
     (let (p0, original) = JsonEncoder_palettes detailed palettes in
      case edit_all eng conf p0 (Palettes_palettes p0) of
        (Inl e, conf1) \<Rightarrow> Inl e
      | (Inr p1, conf1) \<Rightarrow>
          (let (p2, customized) = JsonEncoder_palettes detailed p1
           in Inr (original, customized, p2)))"

subsection \<open>The selector rule in the words of the specification\<close>


subsection \<open>Committing an unedited color\<close>

text \<open>
  What the engine has to do for a stored color \<open>c\<close> to come back from \<^verbatim>\<open>Palette.edit\<close>
  with its hex string: the working value converts to the configured space, the result
  converts to \<open>srgb\<close>, and that prints the stored hex string.
\<close>

definition round_trips :: "'c engine \<Rightarrow> string \<Rightarrow> 'c Color \<Rightarrow> bool" where
  "round_trips eng space c =
     (case convert eng (color c) space of
        Inl e \<Rightarrow> False
      | Inr w \<Rightarrow>
          (case convert eng w ''srgb'' of
             Inl e \<Rightarrow> False
           | Inr w' \<Rightarrow> to_string eng w' = Inr (hex c)))"

text \<open>The conversion to the configured space gives the working value back.\<close>

definition stays :: "'c engine \<Rightarrow> string \<Rightarrow> 'c Color \<Rightarrow> bool" where
  "stays eng space c = (convert eng (color c) space = Inr (color c))"

text \<open>
  The color, the variant and the palette set with every working value converted to the
  space and nothing else changed.
\<close>

definition settled :: "'c engine \<Rightarrow> string \<Rightarrow> 'c Color \<Rightarrow> 'c Color" where
  "settled eng space c =
     (case convert eng (color c) space of Inl e \<Rightarrow> c | Inr w \<Rightarrow> c\<lparr>color := w\<rparr>)"

definition settled_variant :: "'c engine \<Rightarrow> string \<Rightarrow> 'c Color Palette \<Rightarrow> 'c Color Palette" where
  "settled_variant eng space v =
     v\<lparr>colors := map (\<lambda>(nm, c). (nm, settled eng space c)) (colors v)\<rparr>"

definition settled_palettes :: "'c engine \<Rightarrow> string \<Rightarrow> 'c Color Palettes \<Rightarrow> 'c Color Palettes" where
  "settled_palettes eng space p =
     p\<lparr>latte := settled_variant eng space (latte p),
       frappe := settled_variant eng space (frappe p),
       macchiato := settled_variant eng space (macchiato p),
       mocha := settled_variant eng space (mocha p)\<rparr>"

text \<open>All colors of a palette set, in the order of the traversal.\<close>

definition all_colors :: "'c Color Palettes \<Rightarrow> 'c Color list" where
  "all_colors p = concat (map (\<lambda>(k, v). map snd (colors v)) (Palettes_palettes p))"

text \<open>A rule without selectors.\<close>

definition no_selector :: "Edit \<Rightarrow> bool" where
  "no_selector rule = (Edit.name rule = None \<and> Edit.accent rule = None)"

text \<open>What a snapshot shows of a color: its name, hex string and accent flag.\<close>

definition entry_view :: "string \<times> 'c Color \<Rightarrow> string \<times> string \<times> bool" where
  "entry_view = (\<lambda>(nm, c). (nm, hex c, Color.accent c))"

text \<open>The entries of a flattened variant.\<close>

definition hex_ff :: "(string \<times> 'c Color) list \<Rightarrow> (string \<times> string) list" where
  "hex_ff cs = map (\<lambda>(nm, c). (nm, hex c @ ''ff'')) cs"

subsection \<open>Concrete inputs\<close>

text \<open>
  A small engine to run the model on. A color is its hex text in lower case, as
  \<^verbatim>\<open>coloraide\<close> prints it, with one float for the lightness channel; three spaces and
  the two names of the lightness channel are known. The number does not reach the hex
  text: this engine does no color arithmetic.
\<close>

definition lower_hex :: "char \<Rightarrow> char" where
  "lower_hex ch =
     (case map_of [(CHR ''A'', CHR ''a''), (CHR ''B'', CHR ''b''), (CHR ''C'', CHR ''c''),
                   (CHR ''D'', CHR ''d''), (CHR ''E'', CHR ''e''), (CHR ''F'', CHR ''f'')] ch of
        None \<Rightarrow> ch
      | Some d \<Rightarrow> d)"

definition demo_engine :: "(string \<times> pyfloat) engine" where
  "demo_engine =
     \<lparr>parse = (\<lambda>s. Inr (map lower_hex s, Finite 0)),
      convert = (\<lambda>c space.
         if space \<in> set [''srgb'', ''okhsl'', ''okhsv''] then Inr c else Inl ValueError),
      set_channel = (\<lambda>c key f.
         if key \<in> set [''l'', ''lightness'']
         then (case f (snd c) of Inl e \<Rightarrow> Inl e | Inr v \<Rightarrow> Inr (fst c, v))
         else Inl ValueError),
      to_string = (\<lambda>c. Inr (fst c))\<rparr>"

text \<open>The rule of the end-to-end scenarios, with and without its accent selector.\<close>

definition rule_accent :: Edit where
  "rule_accent =
     \<lparr>variable = ''lightness'', value' = Finite (1 / 8), type = Add,
      name = None, accent = Some True, inverse_light = False\<rparr>"

definition rule_bare :: Edit where
  "rule_bare =
     \<lparr>variable = ''lightness'', value' = Finite (1 / 8), type = Add,
      name = None, accent = None, inverse_light = False\<rparr>"

definition rule_halve :: Edit where
  "rule_halve =
     \<lparr>variable = ''l'', value' = Finite 2, type = Multiply,
      name = Some ''red'', accent = None, inverse_light = True\<rparr>"

definition rule_zero :: Edit where
  "rule_zero =
     \<lparr>variable = ''l'', value' = Finite 0, type = Multiply,
      name = Some ''red'', accent = None, inverse_light = True\<rparr>"

definition rule_49 :: Edit where
  "rule_49 =
     \<lparr>variable = ''l'', value' = Finite 49, type = Multiply,
      name = Some ''red'', accent = None, inverse_light = True\<rparr>"

definition demo_conf :: "Edit list \<Rightarrow> Config" where
  "demo_conf es = \<lparr>color_space = ''okhsl'', inverse_edit_light = True, edits = es\<rparr>"

text \<open>The color \<^verbatim>\<open>red\<close> as decoded from the hex string \<open>h\<close>, and palettes that hold it.\<close>

definition demo_red :: "string \<Rightarrow> (string \<times> pyfloat) Color" where
  "demo_red h = \<lparr>hex = h, accent = True, color = (map lower_hex h, Finite 0)\<rparr>"

definition demo_variant :: "string \<Rightarrow> bool \<Rightarrow> string \<Rightarrow> (string \<times> pyfloat) Color Palette" where
  "demo_variant n d h = \<lparr>name = n, dark = d, colors = [(''red'', demo_red h)]\<rparr>"

definition demo_palettes :: "string \<Rightarrow> (string \<times> pyfloat) Color Palettes" where
  "demo_palettes h =
     \<lparr>version = ''1'',
      latte = demo_variant ''Latte'' False h,
      frappe = demo_variant ''Frappe'' True h,
      macchiato = demo_variant ''Macchiato'' True h,
      mocha = demo_variant ''Mocha'' True h\<rparr>"

text \<open>
  The same engine with the space of a color kept in its working value, so that a
  conversion to another space gives another working value.
\<close>

definition space_engine :: "(string \<times> string \<times> pyfloat) engine" where
  "space_engine =
     \<lparr>parse = (\<lambda>s. Inr (''srgb'', map lower_hex s, Finite 0)),
      convert = (\<lambda>c space.
         if space \<in> set [''srgb'', ''okhsl'', ''okhsv''] then Inr (space, snd c)
         else Inl ValueError),
      set_channel = (\<lambda>c key f.
         if key \<in> set [''l'', ''lightness'']
         then (case f (snd (snd c)) of
                 Inl e \<Rightarrow> Inl e
               | Inr v \<Rightarrow> Inr (fst c, fst (snd c), v))
         else Inl ValueError),
      to_string = (\<lambda>c. Inr (fst (snd c)))\<rparr>"

definition okhsv_conf :: "Edit list \<Rightarrow> Config" where
  "okhsv_conf es = \<lparr>color_space = ''okhsv'', inverse_edit_light = True, edits = es\<rparr>"

text \<open>
  The color \<^verbatim>\<open>red\<close> for this engine, with its working value in the space \<open>sp\<close>, and
  palettes that hold it.
\<close>

definition space_red :: "string \<Rightarrow> string \<Rightarrow> (string \<times> string \<times> pyfloat) Color" where
  "space_red sp h = \<lparr>hex = h, accent = True, color = (sp, map lower_hex h, Finite 0)\<rparr>"

definition space_variant ::
  "string \<Rightarrow> bool \<Rightarrow> string \<Rightarrow> string \<Rightarrow> (string \<times> string \<times> pyfloat) Color Palette" where
  "space_variant n d sp h = \<lparr>name = n, dark = d, colors = [(''red'', space_red sp h)]\<rparr>"

definition space_palettes :: "string \<Rightarrow> string \<Rightarrow> (string \<times> string \<times> pyfloat) Color Palettes" where
  "space_palettes sp h =
     \<lparr>version = ''1'',
      latte = space_variant ''Latte'' False sp h,
      frappe = space_variant ''Frappe'' True sp h,
      macchiato = space_variant ''Macchiato'' True sp h,
      mocha = space_variant ''Mocha'' True sp h\<rparr>"

text \<open>
  Documents for \<^verbatim>\<open>read_palettes\<close>: the values of the top-level keys, already told
  apart as strings and variants, and the decoders that accept them.
\<close>

datatype 'v raw = Raw_str string | Raw_palette "'v Palette"

fun dec_str_raw :: "'v raw \<Rightarrow> error + string" where
  "dec_str_raw (Raw_str s) = Inr s"
| "dec_str_raw (Raw_palette v) = Inl (ValidationError ''str'')"

fun dec_palette_raw :: "'v raw \<Rightarrow> error + 'v Palette" where
  "dec_palette_raw (Raw_palette v) = Inr v"
| "dec_palette_raw (Raw_str s) = Inl (ValidationError ''Palette'')"

definition doc_without_mocha :: "string \<rightharpoonup> (string \<times> pyfloat) Color raw" where
  "doc_without_mocha =
     map_of [(''version'', Raw_str ''1''),
             (''latte'', Raw_palette (demo_variant ''Latte'' False ''#ff0000'')),
             (''frappe'', Raw_palette (demo_variant ''Frappe'' True ''#ff0000'')),
             (''macchiato'', Raw_palette (demo_variant ''Macchiato'' True ''#ff0000''))]"

definition doc_full :: "string \<rightharpoonup> (string \<times> pyfloat) Color raw" where
  "doc_full = doc_without_mocha(''mocha'' \<mapsto> Raw_palette (demo_variant ''Mocha'' True ''#ff0000''))"

text \<open>The flattened snapshot of \<open>demo_palettes\<close> when every slot shows \<open>red\<close> as \<open>h\<close>.\<close>

definition flat_reds :: "string \<Rightarrow> (string \<times> pyfloat) snapshot" where
  "flat_reds h =
     Flattened ''1''
       [(''latte'', [(''red'', h)]), (''frappe'', [(''red'', h)]),
        (''macchiato'', [(''red'', h)]), (''mocha'', [(''red'', h)])]"

section \<open>Properties\<close>

subsection \<open>The rounding\<close>

text \<open>
  \<open>round64\<close> returns a number with a significand of at most 53 bits at the exponent of
  its argument, and no such number is nearer to the argument: the error is at most half
  the spacing.
\<close>

lemma pow2_powi: "pow2 e = 2 powi e"
  by (simp add: pow2_def power_int_def field_simps)

lemma pow2_pos: "0 < pow2 e"
  by (simp add: pow2_powi)

lemma pow2_Suc: "pow2 (e + 1) = 2 * pow2 e"
  by (simp add: pow2_powi power_int_add)

lemma pow2_diff: "pow2 (a - b) = pow2 a / pow2 b"
  by (simp add: pow2_powi power_int_diff)

lemma pow2_nat: "0 \<le> e \<Longrightarrow> pow2 e = 2 ^ nat e"
  by (simp add: pow2_def)

lemma round_half_even_nearest: "\<bar>of_int (round_half_even r) - r\<bar> \<le> 1 / 2"
proof -
  have f: "of_int \<lfloor>r\<rfloor> \<le> r" "r < of_int \<lfloor>r\<rfloor> + 1"
    by linarith+
  then show ?thesis
    unfolding round_half_even_def Let_def
    by (auto simp: abs_le_iff)
qed

lemma bitlen_bounds_rat:
  assumes "0 < (p::int)"
  shows "pow2 (bitlen p - 1) \<le> of_int p" and "of_int p < pow2 (bitlen p)"
proof -
  have b: "1 \<le> bitlen p" using assms by (auto simp: bitlen_alt_def)
  from bitlen_bounds [OF assms]
  have "(of_int (2 ^ nat (bitlen p - 1)) :: rat) \<le> of_int p"
    and "(of_int p :: rat) < of_int (2 ^ nat (bitlen p))"
    by (simp_all only: of_int_le_iff of_int_less_iff)
  with b show "pow2 (bitlen p - 1) \<le> of_int p" and "of_int p < pow2 (bitlen p)"
    by (simp_all add: pow2_nat)
qed

lemma floor_log2_bounds:
  assumes "0 < x"
  shows "pow2 (floor_log2 x) \<le> x \<and> x < pow2 (floor_log2 x + 1)"
proof -
  obtain p q where pq: "quotient_of x = (p, q)" by (cases "quotient_of x")
  then have q: "0 < q" and x: "x = of_int p / of_int q"
    using quotient_of_denom_pos quotient_of_div by auto
  with assms have p: "0 < p" by (simp add: zero_less_divide_iff)
  define e where "e = bitlen p - bitlen q"
  note bp = bitlen_bounds_rat [OF p] and bq = bitlen_bounds_rat [OF q]
  have qpos: "(0::rat) < of_int q" using q by simp
  have lo: "pow2 (e - 1) \<le> x"
  proof -
    have "pow2 (e - 1) = pow2 (bitlen p - 1) / pow2 (bitlen q)"
      by (simp add: e_def flip: pow2_diff) (simp add: algebra_simps)
    also have "\<dots> \<le> of_int p / pow2 (bitlen q)"
      using bp(1) pow2_pos [of "bitlen q"] by (simp add: divide_right_mono)
    also have "\<dots> \<le> of_int p / of_int q"
      using bq(2) qpos p by (simp add: frac_le)
    finally show ?thesis by (simp add: x)
  qed
  have hi: "x < pow2 (e + 1)"
  proof -
    have "x = of_int p / of_int q" by (rule x)
    also have "\<dots> < pow2 (bitlen p) / of_int q"
      using bp(2) qpos by (simp add: divide_strict_right_mono)
    also have "\<dots> \<le> pow2 (bitlen p) / pow2 (bitlen q - 1)"
      using bq(1) pow2_pos [of "bitlen q - 1"] pow2_pos [of "bitlen p"] by (simp add: frac_le)
    also have "\<dots> = pow2 (e + 1)"
      by (simp add: e_def flip: pow2_diff) (simp add: algebra_simps)
    finally show ?thesis .
  qed
  have fl: "floor_log2 x = (if pow2 e \<le> x then e else e - 1)"
    by (simp add: floor_log2_def pq e_def Let_def)
  show ?thesis
  proof (cases "pow2 e \<le> x")
    case True
    with fl hi show ?thesis by simp
  next
    case False
    with fl lo show ?thesis by simp
  qed
qed


lemma round64_nearest:
  assumes "round64 x = Finite y"
  shows "\<bar>y - x\<bar> \<le> pow2 (max (floor_log2 \<bar>x\<bar>) (- 1022) - 53)"
proof (cases "x = 0")
  case True
  with assms have "y = 0" by (simp add: round64_def)
  with True pow2_pos [of "max (floor_log2 \<bar>x\<bar>) (- 1022) - 53"] show ?thesis by simp
next
  case False
  define e where "e = max (floor_log2 \<bar>x\<bar>) (- 1022)"
  define q where "q = pow2 (e - 52)"
  define m where "m = round_half_even (\<bar>x\<bar> / q)"
  have q: "0 < q" by (simp add: q_def pow2_pos)
  from assms False have y: "y = (if 0 < x then of_int m * q else - (of_int m * q))"
    by (simp add: round64_def Let_def e_def q_def m_def split: if_splits)
  have "of_int m * q - \<bar>x\<bar> = (of_int m - \<bar>x\<bar> / q) * q"
    using q by (simp add: left_diff_distrib)
  then have "\<bar>of_int m * q - \<bar>x\<bar>\<bar> = \<bar>of_int m - \<bar>x\<bar> / q\<bar> * q"
    using q by (simp add: abs_mult)
  also have "\<dots> \<le> 1 / 2 * q"
    using round_half_even_nearest [of "\<bar>x\<bar> / q"] q
    by (simp add: m_def mult_right_mono)
  also have "\<dots> = pow2 (e - 53)"
    using pow2_Suc [of "e - 53"] by (simp add: q_def)
  finally have "\<bar>of_int m * q - \<bar>x\<bar>\<bar> \<le> pow2 (e - 53)" .
  with y False show ?thesis
    by (auto simp: e_def abs_if split: if_splits)
qed

lemma round64_significand:
  assumes "round64 x = Finite y"
  shows "\<exists>m. \<bar>m\<bar> \<le> 2 ^ 53 \<and> y = of_int m * pow2 (max (floor_log2 \<bar>x\<bar>) (- 1022) - 52)"
proof (cases "x = 0")
  case True
  with assms have "y = 0" by (simp add: round64_def)
  then show ?thesis by (intro exI [of _ 0]) simp
next
  case False
  define e where "e = max (floor_log2 \<bar>x\<bar>) (- 1022)"
  define q where "q = pow2 (e - 52)"
  define m where "m = round_half_even (\<bar>x\<bar> / q)"
  have q: "0 < q" by (simp add: q_def pow2_pos)
  from assms False have y: "y = (if 0 < x then of_int m * q else - (of_int m * q))"
    by (simp add: round64_def Let_def e_def q_def m_def split: if_splits)
  from False have "0 < \<bar>x\<bar>" by simp
  from floor_log2_bounds [OF this] have "\<bar>x\<bar> < pow2 (floor_log2 \<bar>x\<bar> + 1)" by simp
  also have "\<dots> \<le> pow2 (e + 1)"
    by (simp add: e_def pow2_powi power_int_increasing)
  finally have "\<bar>x\<bar> / q < pow2 (e + 1) / q"
    using q by (simp add: divide_strict_right_mono)
  also have "pow2 (e + 1) / q = 2 ^ 53"
    unfolding q_def by (simp flip: pow2_diff) (simp add: pow2_def)
  finally have up: "\<bar>x\<bar> / q < 2 ^ 53" .
  have lo: "0 \<le> \<bar>x\<bar> / q" using q by simp
  from round_half_even_nearest [of "\<bar>x\<bar> / q"]
  have "of_int m - \<bar>x\<bar> / q \<le> 1 / 2" "\<bar>x\<bar> / q - of_int m \<le> 1 / 2"
    unfolding m_def by linarith+
  with up lo have "- 1 < (of_int m :: rat)" "(of_int m :: rat) < 2 ^ 53 + 1"
    by linarith+
  then have "(of_int (- 1) :: rat) < of_int m" "(of_int m :: rat) < of_int (2 ^ 53 + 1)"
    by simp_all
  then have "- 1 < m" "m < 2 ^ 53 + 1"
    by (simp_all only: of_int_less_iff)
  then have m: "\<bar>m\<bar> \<le> 2 ^ 53" by simp
  show ?thesis
  proof (cases "0 < x")
    case True
    with y m show ?thesis by (intro exI [of _ m]) (simp add: q_def e_def)
  next
    case False
    with y m show ?thesis by (intro exI [of _ "- m"]) (simp add: q_def e_def)
  qed
qed


subsection \<open>Selectors\<close>

lemma py_eq_Some: "py_eq x y \<longleftrightarrow> x = Some y"
  by (cases x) auto




subsection \<open>The arithmetic of a rule\<close>

lemma fadd_fneg: "fadd a (fneg b) = fsub a b"
  by (cases a; cases b) auto

lemma round64_exact:
  "round64 (1 / 2) = Finite (1 / 2)"
  "round64 (1 / 4) = Finite (1 / 4)"
  "round64 (3 / 8) = Finite (3 / 8)"
  "round64 (5 / 8) = Finite (5 / 8)"
  "round64 1 = Finite 1"
  "round64 (- (1 / 8)) = Finite (- (1 / 8))"
  by code_simp+

lemma round64_49:
  "round64 (1 / 49) = Finite (5882252574524729 / 288230376151711744)"
  "round64 (288230376151711721 / 288230376151711744)
     = Finite (9007199254740991 / 9007199254740992)"
  by code_simp+

text \<open>
  C2. A rule of kind add returns the current value plus the rule's value, except that
  with the invert flag on a lightness channel it returns the current value minus the
  rule's value.
\<close>

theorem add_rule:
  assumes "type rule = Add"
  shows "(\<not> inverse_light rule \<longrightarrow> Edit_call rule cur = Inr (fadd cur (value' rule)))
       \<and> (inverse_light rule \<and> variable rule \<in> {''l'', ''lightness''}
            \<longrightarrow> Edit_call rule cur = Inr (fsub cur (value' rule)))
       \<and> (inverse_light rule \<and> variable rule \<notin> {''l'', ''lightness''}
            \<longrightarrow> Edit_call rule cur = Inr (fadd cur (value' rule)))"
  using assms by (simp add: Edit_call_def fadd_fneg)

theorem add_rule_witness:
  "type rule_accent = Add \<and> \<not> inverse_light rule_accent
   \<and> Edit_call rule_accent (Finite (1 / 2)) = Inr (Finite (5 / 8))
   \<and> inverse_light (rule_accent\<lparr>inverse_light := True\<rparr>)
   \<and> variable (rule_accent\<lparr>inverse_light := True\<rparr>) \<in> {''l'', ''lightness''}
   \<and> Edit_call (rule_accent\<lparr>inverse_light := True\<rparr>) (Finite (1 / 2)) = Inr (Finite (3 / 8))
   \<and> variable (rule_accent\<lparr>inverse_light := True, variable := ''h''\<rparr>) \<notin> {''l'', ''lightness''}
   \<and> Edit_call (rule_accent\<lparr>inverse_light := True, variable := ''h''\<rparr>) (Finite (1 / 2))
       = Inr (Finite (5 / 8))"
  using add_rule [of rule_accent "Finite (1 / 2)"]
    add_rule [of "rule_accent\<lparr>inverse_light := True\<rparr>" "Finite (1 / 2)"]
    add_rule [of "rule_accent\<lparr>inverse_light := True, variable := ''h''\<rparr>" "Finite (1 / 2)"]
  by (simp add: rule_accent_def round64_exact)

lemma py_truediv_isl: "isl (py_truediv a b) \<longleftrightarrow> b = Finite 0"
  by (cases b; cases a) auto

text \<open>
  C3, amended. A rule of kind multiply returns the current value times the rule's
  value, except that with the invert flag on a lightness channel it returns the
  current value times the float \<^verbatim>\<open>1.0 / value\<close>; this raises exactly when
  \<^verbatim>\<open>current / value\<close> raises, and it is what \<^verbatim>\<open>current / value\<close> returns when both
  numbers are finite and the reciprocal is exact. A rule of kind value returns the
  rule's value.
\<close>

theorem multiply_and_value_rule:
  "(type rule = Multiply \<longrightarrow>
      (\<not> inverse_light rule \<longrightarrow> Edit_call rule cur = Inr (fmul cur (value' rule)))
    \<and> (inverse_light rule \<and> variable rule \<in> {''l'', ''lightness''} \<longrightarrow>
         Edit_call rule cur =
           (case py_truediv (Finite 1) (value' rule) of
              Inl e \<Rightarrow> Inl e
            | Inr w \<Rightarrow> Inr (fmul cur w))
         \<and> isl (Edit_call rule cur) = isl (py_truediv cur (value' rule))
         \<and> (\<forall>x v. cur = Finite x \<and> value' rule = Finite v \<and> v \<noteq> 0
                    \<and> round64 (1 / v) = Finite (1 / v)
               \<longrightarrow> Edit_call rule cur = py_truediv cur (value' rule)))
    \<and> (inverse_light rule \<and> variable rule \<notin> {''l'', ''lightness''}
         \<longrightarrow> Edit_call rule cur = Inr (fmul cur (value' rule))))
   \<and> (type rule = Value \<longrightarrow> Edit_call rule cur = Inr (value' rule))"
proof -
  have "isl (Edit_call rule cur) = isl (py_truediv cur (value' rule))"
    if "type rule = Multiply" "inverse_light rule" "variable rule \<in> {''l'', ''lightness''}"
  proof (cases "value' rule = Finite 0")
    case True
    with that show ?thesis by (simp add: Edit_call_def)
  next
    case False
    then have "\<not> isl (py_truediv (Finite 1) (value' rule))" "\<not> isl (py_truediv cur (value' rule))"
      by (simp_all add: py_truediv_isl)
    with that show ?thesis
      by (cases "py_truediv (Finite 1) (value' rule)") (auto simp: Edit_call_def)
  qed
  then show ?thesis by (auto simp: Edit_call_def)
qed

theorem multiply_and_value_rule_witness:
  "type rule_halve = Multiply \<and> inverse_light rule_halve
   \<and> variable rule_halve \<in> {''l'', ''lightness''}
   \<and> value' rule_halve = Finite 2 \<and> (2 :: rat) \<noteq> 0 \<and> round64 (1 / 2) = Finite (1 / 2)
   \<and> Edit_call rule_halve (Finite (1 / 2)) = Inr (Finite (1 / 4))
   \<and> py_truediv (Finite (1 / 2)) (value' rule_halve) = Inr (Finite (1 / 4))
   \<and> Edit_call (rule_halve\<lparr>inverse_light := False\<rparr>) (Finite (1 / 2)) = Inr (Finite 1)
   \<and> Edit_call (rule_halve\<lparr>variable := ''s''\<rparr>) (Finite (1 / 2)) = Inr (Finite 1)
   \<and> type (rule_halve\<lparr>type := Value\<rparr>) = Value
   \<and> Edit_call (rule_halve\<lparr>type := Value\<rparr>) (Finite (1 / 2)) = Inr (Finite 2)"
  using multiply_and_value_rule [of rule_halve "Finite (1 / 2)"]
    multiply_and_value_rule [of "rule_halve\<lparr>inverse_light := False\<rparr>" "Finite (1 / 2)"]
    multiply_and_value_rule [of "rule_halve\<lparr>variable := ''s''\<rparr>" "Finite (1 / 2)"]
    multiply_and_value_rule [of "rule_halve\<lparr>type := Value\<rparr>" "Finite (1 / 2)"]
  by (simp add: rule_halve_def round64_exact)

text \<open>
  C3 as stated fails: with the invert flag on the channel \<open>l\<close>, the rule that
  multiplies by 49 takes the current value 49 to \<open>1 - 2\<^sup>-\<^sup>5\<^sup>3\<close>, and \<^verbatim>\<open>49.0 / 49.0\<close> is 1.
\<close>

theorem multiply_inverted_counterexample:
  "type rule_49 = Multiply \<and> inverse_light rule_49 \<and> variable rule_49 \<in> {''l'', ''lightness''}
   \<and> Edit_call rule_49 (Finite 49) = Inr (Finite (9007199254740991 / 9007199254740992))
   \<and> py_truediv (Finite 49) (value' rule_49) = Inr (Finite 1)
   \<and> Edit_call rule_49 (Finite 49) \<noteq> py_truediv (Finite 49) (value' rule_49)"
  by (simp add: rule_49_def Edit_call_def round64_49 round64_exact)

text \<open>
  C4. A rule of kind multiply with value zero, applied with the invert flag on a
  lightness channel, raises \<^verbatim>\<open>ZeroDivisionError\<close>.
\<close>

theorem multiply_by_zero_inverted:
  assumes "type rule = Multiply" and "value' rule = Finite 0"
    and "inverse_light rule" and "variable rule \<in> {''l'', ''lightness''}"
  shows "Edit_call rule cur = Inl ZeroDivisionError"
  using assms by (simp add: Edit_call_def)

lemma demo_edit_zero:
  "fst (Palette_edit demo_engine (demo_variant ''Latte'' False ''#ff0000'') (demo_conf [rule_zero]))
     = Inl ZeroDivisionError"
  by (simp add: Palette_edit_def variant_edits_def variant_inverse_def demo_conf_def
      demo_variant_def demo_red_def demo_engine_def rule_zero_def edit_applies_def
      Color_edit_def Edit_call_def)

theorem multiply_by_zero_inverted_witness:
  "type rule_zero = Multiply \<and> value' rule_zero = Finite 0 \<and> inverse_light rule_zero
   \<and> variable rule_zero \<in> {''l'', ''lightness''}
   \<and> Edit_call rule_zero (Finite (1 / 2)) = Inl ZeroDivisionError
   \<and> fst (Palette_edit demo_engine (demo_variant ''Latte'' False ''#ff0000'') (demo_conf [rule_zero]))
       = Inl ZeroDivisionError"
  using multiply_by_zero_inverted [of rule_zero "Finite (1 / 2)"] demo_edit_zero
  by (simp add: rule_zero_def)

subsection \<open>The flag of a variant\<close>

text \<open>
  C5. The invert flag of a variant is the configuration's \<^verbatim>\<open>inverse_edit_light\<close> and not
  the variant's \<^verbatim>\<open>dark\<close>, and every rule used for the variant carries it; for a dark
  variant it is false.
\<close>

theorem variant_invert_flag:
  "variant_inverse conf self = (inverse_edit_light conf \<and> \<not> dark self)
   \<and> (\<forall>e \<in> set (variant_edits conf self).
         inverse_light e = (inverse_edit_light conf \<and> \<not> dark self))
   \<and> (dark self \<longrightarrow>
         \<not> variant_inverse conf self \<and> (\<forall>e \<in> set (variant_edits conf self). \<not> inverse_light e))"
  by (auto simp: variant_inverse_def variant_edits_def)

theorem variant_invert_flag_witness:
  "dark (demo_variant ''Mocha'' True ''#ff0000'')
   \<and> \<not> variant_inverse (demo_conf [rule_accent]) (demo_variant ''Mocha'' True ''#ff0000'')
   \<and> map inverse_light
         (variant_edits (demo_conf [rule_accent]) (demo_variant ''Mocha'' True ''#ff0000''))
       = [False]"
proof -
  have d: "dark (demo_variant ''Mocha'' True ''#ff0000'')"
    by (simp add: demo_variant_def)
  have n: "length (variant_edits (demo_conf [rule_accent]) (demo_variant ''Mocha'' True ''#ff0000'')) = 1"
    by (simp add: variant_edits_def demo_conf_def)
  then obtain e where e: "variant_edits (demo_conf [rule_accent]) (demo_variant ''Mocha'' True ''#ff0000'') = [e]"
    by (cases "variant_edits (demo_conf [rule_accent]) (demo_variant ''Mocha'' True ''#ff0000'')") auto
  from variant_invert_flag [of "demo_conf [rule_accent]" "demo_variant ''Mocha'' True ''#ff0000''"] d e
  show ?thesis by simp
qed

subsection \<open>Traversal, flattening and decoding\<close>

lemma Palettes_palettes_eq:
  "Palettes_palettes p =
     [(''latte'', latte p), (''frappe'', frappe p), (''macchiato'', macchiato p), (''mocha'', mocha p)]"
  by (simp add: Palettes_palettes_def Palettes_fields_def getattr_Palette_def map_filter_simps)

lemma setattr_same:
  "setattr_Palette p ''latte'' (latte p) = p"
  "setattr_Palette p ''frappe'' (frappe p) = p"
  "setattr_Palette p ''macchiato'' (macchiato p) = p"
  "setattr_Palette p ''mocha'' (mocha p) = p"
  by (simp_all add: setattr_Palette_def)

lemma flatten_palettes:
  "flatten_slots p (Palettes_palettes p) =
     (p, [(''latte'', hex_ff (colors (latte p))), (''frappe'', hex_ff (colors (frappe p))),
          (''macchiato'', hex_ff (colors (macchiato p))), (''mocha'', hex_ff (colors (mocha p)))])"
  by (simp add: Palettes_palettes_eq Palette_to_hex_def setattr_same hex_ff_def)

text \<open>
  C7. Flattening maps each color name to the color's hex string followed by the two
  digits \<open>ff\<close>, and leaves the variant and the palette set as they were.
\<close>

theorem flatten_appends_alpha:
  "fst (Palette_to_hex self) = self
   \<and> colors (snd (Palette_to_hex self)) = map (\<lambda>(nm, c). (nm, hex c @ ''ff'')) (colors self)
   \<and> length ''ff'' = 2
   \<and> JsonEncoder_palettes False p =
       (p, Flattened (version p)
            [(''latte'', map (\<lambda>(nm, c). (nm, hex c @ ''ff'')) (colors (latte p))),
             (''frappe'', map (\<lambda>(nm, c). (nm, hex c @ ''ff'')) (colors (frappe p))),
             (''macchiato'', map (\<lambda>(nm, c). (nm, hex c @ ''ff'')) (colors (macchiato p))),
             (''mocha'', map (\<lambda>(nm, c). (nm, hex c @ ''ff'')) (colors (mocha p)))])"
  by (simp add: JsonEncoder_palettes_def flatten_palettes Palette_to_hex_def hex_ff_def)

lemma required_present: "required_field doc k dec = Inr x \<Longrightarrow> k \<in> dom doc"
  by (auto simp: required_field_def split: option.splits)

lemma read_palettes_Inr:
  assumes "read_palettes dec_str dec_palette doc = Inr p"
  shows "(\<exists>x. required_field doc ''latte'' dec_palette = Inr x)
       \<and> (\<exists>x. required_field doc ''frappe'' dec_palette = Inr x)
       \<and> (\<exists>x. required_field doc ''macchiato'' dec_palette = Inr x)
       \<and> (\<exists>x. required_field doc ''mocha'' dec_palette = Inr x)"
proof -
  from assms obtain ve where "required_field doc ''version'' dec_str = Inr ve"
    unfolding read_palettes_def by (cases "required_field doc ''version'' dec_str") auto
  moreover from assms this obtain la where la: "required_field doc ''latte'' dec_palette = Inr la"
    unfolding read_palettes_def by (cases "required_field doc ''latte'' dec_palette") auto
  moreover from assms calculation obtain fr where "required_field doc ''frappe'' dec_palette = Inr fr"
    unfolding read_palettes_def by (cases "required_field doc ''frappe'' dec_palette") auto
  moreover from assms calculation obtain ma where "required_field doc ''macchiato'' dec_palette = Inr ma"
    unfolding read_palettes_def by (cases "required_field doc ''macchiato'' dec_palette") auto
  moreover from assms calculation obtain mo where "required_field doc ''mocha'' dec_palette = Inr mo"
    unfolding read_palettes_def by (cases "required_field doc ''mocha'' dec_palette") auto
  ultimately show ?thesis by blast
qed

lemma read_palettes_slots:
  assumes "read_palettes dec_str dec_palette doc = Inr p"
  shows "set [''latte'', ''frappe'', ''macchiato'', ''mocha''] \<subseteq> dom doc"
  using read_palettes_Inr [OF assms] by (auto dest: required_present)

lemma read_palettes_missing:
  assumes "k \<in> set [''latte'', ''frappe'', ''macchiato'', ''mocha'']" and "doc k = None"
  shows "isl (read_palettes dec_str dec_palette doc)"
proof (cases "read_palettes dec_str dec_palette doc")
  case (Inl e)
  then show ?thesis by simp
next
  case (Inr p)
  from read_palettes_slots [OF Inr] assms have False by auto
  then show ?thesis ..
qed

text \<open>
  C9. The traversal of a palette set yields the four slots \<open>latte\<close>, \<open>frappe\<close>,
  \<open>macchiato\<close>, \<open>mocha\<close> in this order, and decoding a document that lacks one of
  them fails.
\<close>

theorem four_slots:
  "map fst (Palettes_palettes p) = [''latte'', ''frappe'', ''macchiato'', ''mocha'']
   \<and> map snd (Palettes_palettes p) = [latte p, frappe p, macchiato p, mocha p]
   \<and> (k \<in> set [''latte'', ''frappe'', ''macchiato'', ''mocha''] \<and> doc k = None
        \<longrightarrow> isl (read_palettes dec_str dec_palette doc))
   \<and> (read_palettes dec_str dec_palette doc = Inr p'
        \<longrightarrow> set [''latte'', ''frappe'', ''macchiato'', ''mocha''] \<subseteq> dom doc)"
  using read_palettes_missing [of k doc dec_str dec_palette]
    read_palettes_slots [of dec_str dec_palette doc p']
  by (simp add: Palettes_palettes_eq)

lemma doc_full_decodes:
  "read_palettes dec_str_raw dec_palette_raw doc_full = Inr (demo_palettes ''#ff0000'')"
  by (simp add: read_palettes_def required_field_def doc_full_def doc_without_mocha_def
      demo_palettes_def)

theorem four_slots_witness:
  "''mocha'' \<in> set [''latte'', ''frappe'', ''macchiato'', ''mocha'']
   \<and> doc_without_mocha ''mocha'' = None
   \<and> isl (read_palettes dec_str_raw dec_palette_raw doc_without_mocha)
   \<and> read_palettes dec_str_raw dec_palette_raw doc_full = Inr (demo_palettes ''#ff0000'')
   \<and> set [''latte'', ''frappe'', ''macchiato'', ''mocha''] \<subseteq> dom doc_full"
proof -
  have m: "doc_without_mocha ''mocha'' = None"
    by (simp add: doc_without_mocha_def)
  from four_slots [of "demo_palettes ''#ff0000''" "''mocha''" doc_without_mocha
      dec_str_raw dec_palette_raw "demo_palettes ''#ff0000''"] m
  have a: "isl (read_palettes dec_str_raw dec_palette_raw doc_without_mocha)" by simp
  from four_slots [of "demo_palettes ''#ff0000''" "''mocha''" doc_full
      dec_str_raw dec_palette_raw "demo_palettes ''#ff0000''"] doc_full_decodes
  have b: "set [''latte'', ''frappe'', ''macchiato'', ''mocha''] \<subseteq> dom doc_full" by blast
  from m a b doc_full_decodes show ?thesis by simp
qed

subsection \<open>What \<^verbatim>\<open>Palette.edit\<close> leaves alone\<close>

lemma Color_edit_fields:
  "Color_edit eng c key f = Inr c' \<Longrightarrow> hex c' = hex c \<and> Color.accent c' = Color.accent c"
  by (auto simp: Color_edit_def split: sum.splits)

lemma Color_update_fields:
  "Color_update eng c = Inr c' \<Longrightarrow> Color.accent c' = Color.accent c \<and> color c' = color c"
  by (auto simp: Color_update_def split: sum.splits)

lemma apply_edits_fields:
  "apply_edits eng es nm c = Inr c' \<Longrightarrow> hex c' = hex c \<and> Color.accent c' = Color.accent c"
proof (induction es arbitrary: c)
  case Nil
  then show ?case by simp
next
  case (Cons e es)
  show ?case
  proof (cases "edit_applies e nm c")
    case True
    with Cons.prems obtain d where d: "Color_edit eng c (variable e) (Edit_call e) = Inr d"
      and r: "apply_edits eng es nm d = Inr c'"
      by (auto split: sum.splits)
    from Cons.IH [OF r] Color_edit_fields [OF d] show ?thesis by simp
  next
    case False
    with Cons.prems have "apply_edits eng es nm c = Inr c'" by simp
    from Cons.IH [OF this] show ?thesis .
  qed
qed

lemma edit_colors_fields:
  "edit_colors eng space es cs = Inr cs' \<Longrightarrow>
     map fst cs' = map fst cs \<and> map (Color.accent \<circ> snd) cs' = map (Color.accent \<circ> snd) cs"
proof (induction cs arbitrary: cs')
  case Nil
  then show ?case by simp
next
  case (Cons entry cs)
  obtain nm c where entry: "entry = (nm, c)" by (cases entry)
  from Cons.prems entry obtain w d rest where
    w: "convert eng (color c) space = Inr w"
    and d: "apply_edits eng es nm (c\<lparr>color := w\<rparr>) = Inr d"
    and rest: "edit_colors eng space es cs = Inr rest"
    and cs': "cs' = (nm, d) # rest"
    by (auto split: sum.splits)
  from apply_edits_fields [OF d] Cons.IH [OF rest] entry cs' show ?case by simp
qed

lemma update_colors_fields:
  "update_colors eng cs = Inr cs' \<Longrightarrow>
     map fst cs' = map fst cs \<and> map (Color.accent \<circ> snd) cs' = map (Color.accent \<circ> snd) cs"
proof (induction cs arbitrary: cs')
  case Nil
  then show ?case by simp
next
  case (Cons entry cs)
  obtain nm c where entry: "entry = (nm, c)" by (cases entry)
  from Cons.prems entry obtain d rest where
    d: "Color_update eng c = Inr d"
    and rest: "update_colors eng cs = Inr rest"
    and cs': "cs' = (nm, d) # rest"
    by (auto split: sum.splits)
  from Color_update_fields [OF d] Cons.IH [OF rest] entry cs' show ?case by simp
qed

lemma Palette_edit_Inr:
  assumes "fst (Palette_edit eng self conf) = Inr self'"
  obtains cs cs' where
    "edit_colors eng (color_space conf) (variant_edits conf self) (colors self) = Inr cs"
    "update_colors eng cs = Inr cs'"
    "self' = self\<lparr>colors := cs'\<rparr>"
  using assms by (auto simp: Palette_edit_def Let_def split: sum.splits)

lemma Palette_edit_conf: "snd (Palette_edit eng self conf) = conf"
  by (simp add: Palette_edit_def Let_def)

text \<open>
  C10. \<^verbatim>\<open>Palette.edit\<close> keeps the color names of the variant, in their order, and with
  them the variant's name, its dark flag and the accent flag of every color.
\<close>

theorem edit_preserves_names:
  assumes "fst (Palette_edit eng self conf) = Inr self'"
  shows "map fst (colors self') = map fst (colors self)
       \<and> Palette.name self' = Palette.name self \<and> dark self' = dark self
       \<and> map (Color.accent \<circ> snd) (colors self') = map (Color.accent \<circ> snd) (colors self)"
proof -
  from assms obtain cs cs' where
    cs: "edit_colors eng (color_space conf) (variant_edits conf self) (colors self) = Inr cs"
    and cs': "update_colors eng cs = Inr cs'"
    and self': "self' = self\<lparr>colors := cs'\<rparr>"
    by (rule Palette_edit_Inr)
  from edit_colors_fields [OF cs] update_colors_fields [OF cs'] self'
  show ?thesis by simp
qed

lemma demo_edit_latte:
  "Palette_edit demo_engine (demo_variant ''Latte'' False ''#ff0000'') (demo_conf [rule_accent]) =
     (Inr \<lparr>name = ''Latte'', dark = False,
           colors = [(''red'', \<lparr>hex = ''#ff0000'', accent = True, color = (''#ff0000'', Finite (- (1 / 8)))\<rparr>)]\<rparr>,
      demo_conf [rule_accent])"
  by (simp add: Palette_edit_def variant_edits_def variant_inverse_def demo_conf_def
      demo_variant_def demo_red_def demo_engine_def rule_accent_def edit_applies_def
      Color_edit_def Color_update_def Edit_call_def lower_hex_def round64_exact)

theorem edit_preserves_names_witness:
  "fst (Palette_edit demo_engine (demo_variant ''Latte'' False ''#ff0000'') (demo_conf [rule_accent])) =
     Inr \<lparr>name = ''Latte'', dark = False,
          colors = [(''red'', \<lparr>hex = ''#ff0000'', accent = True, color = (''#ff0000'', Finite (- (1 / 8)))\<rparr>)]\<rparr>
   \<and> map fst [(''red'', \<lparr>hex = ''#ff0000'', accent = True, color = (''#ff0000'', Finite (- (1 / 8)))\<rparr>)]
       = map fst (colors (demo_variant ''Latte'' False ''#ff0000''))"
proof -
  have r: "fst (Palette_edit demo_engine (demo_variant ''Latte'' False ''#ff0000'') (demo_conf [rule_accent])) =
     Inr \<lparr>name = ''Latte'', dark = False,
          colors = [(''red'', \<lparr>hex = ''#ff0000'', accent = True, color = (''#ff0000'', Finite (- (1 / 8)))\<rparr>)]\<rparr>"
    by (simp add: demo_edit_latte)
  from edit_preserves_names [OF r] r show ?thesis by simp
qed

lemma edit_all_conf: "snd (edit_all eng conf p vs) = conf"
proof (induction vs arbitrary: p)
  case Nil
  then show ?case by simp
next
  case (Cons entry vs)
  obtain k v where entry: "entry = (k, v)" by (cases entry)
  obtain r c where pe: "Palette_edit eng v conf = (r, c)" by (cases "Palette_edit eng v conf")
  with Palette_edit_conf [of eng v conf] have c: "c = conf" by simp
  show ?case
  proof (cases r)
    case (Inl e)
    with entry pe c show ?thesis by simp
  next
    case (Inr v')
    with entry pe c Cons.IH [of "setattr_Palette p k v'"] show ?thesis by simp
  qed
qed

text \<open>
  C8. The configuration is the same after \<^verbatim>\<open>Palette.edit\<close>, whether the call returns
  or raises, and after the loop over all variants; the rules that carry the variant's
  flag are copies of the configuration's rules.
\<close>

theorem edit_keeps_config:
  "snd (Palette_edit eng self conf) = conf
   \<and> snd (edit_all eng conf p vs) = conf
   \<and> list_all2 (\<lambda>derived rule. derived = rule\<lparr>inverse_light := variant_inverse conf self\<rparr>)
        (variant_edits conf self) (edits conf)"
proof -
  have "list_all2 (\<lambda>derived rule. derived = rule\<lparr>inverse_light := variant_inverse conf self\<rparr>)
        (variant_edits conf self) (edits conf)"
    by (simp add: variant_edits_def list_all2_map1 list_all2_same)
  then show ?thesis by (simp add: Palette_edit_conf edit_all_conf)
qed

subsection \<open>Rules without selectors\<close>

lemma no_selector_never_applies: "no_selector e \<Longrightarrow> \<not> edit_applies e nm c"
  by (simp add: no_selector_def edit_applies_def)

lemma apply_edits_no_selector:
  "\<forall>e \<in> set es. no_selector e \<Longrightarrow> apply_edits eng es nm c = Inr c"
  by (induction es) (simp_all add: no_selector_never_applies)

lemma edit_colors_no_selector:
  assumes "\<forall>e \<in> set es. no_selector e"
  shows "edit_colors eng space es cs = edit_colors eng space [] cs"
proof (induction cs)
  case Nil
  show ?case by simp
next
  case (Cons entry cs)
  obtain nm c where entry: "entry = (nm, c)" by (cases entry)
  from Cons.IH entry show ?case
    by (simp add: apply_edits_no_selector [OF assms] cong: sum.case_cong)
qed

lemma variant_edits_no_selector:
  "\<forall>e \<in> set (edits conf). no_selector e \<Longrightarrow> \<forall>e \<in> set (variant_edits conf self). no_selector e"
  by (auto simp: variant_edits_def no_selector_def)

lemma Palette_edit_no_selector:
  assumes "\<forall>e \<in> set (edits conf). no_selector e"
  shows "fst (Palette_edit eng self conf) = fst (Palette_edit eng self (conf\<lparr>edits := []\<rparr>))"
proof -
  have "edit_colors eng (color_space conf) (variant_edits conf self) (colors self)
      = edit_colors eng (color_space conf) [] (colors self)"
    by (rule edit_colors_no_selector [OF variant_edits_no_selector [OF assms]])
  then show ?thesis by (simp add: Palette_edit_def variant_edits_def)
qed

lemma edit_all_no_selector:
  assumes "\<forall>e \<in> set (edits conf). no_selector e"
  shows "fst (edit_all eng conf p vs) = fst (edit_all eng (conf\<lparr>edits := []\<rparr>) p vs)"
proof (induction vs arbitrary: p)
  case Nil
  show ?case by simp
next
  case (Cons entry vs)
  obtain k v where entry: "entry = (k, v)" by (cases entry)
  obtain r where r: "Palette_edit eng v conf = (r, conf)"
    using Palette_edit_conf [of eng v conf] by (cases "Palette_edit eng v conf") simp
  have "Palette_edit eng v (conf\<lparr>edits := []\<rparr>) = (r, conf\<lparr>edits := []\<rparr>)"
    using Palette_edit_no_selector [OF assms, of eng v] r
      Palette_edit_conf [of eng v "conf\<lparr>edits := []\<rparr>"]
    by (cases "Palette_edit eng v (conf\<lparr>edits := []\<rparr>)") simp
  with r entry Cons.IH show ?case by (cases r) simp_all
qed

lemma main_no_selector:
  assumes "\<forall>e \<in> set (edits conf). no_selector e"
  shows "main eng detailed conf p = main eng detailed (conf\<lparr>edits := []\<rparr>) p"
proof -
  obtain p0 orig where o: "JsonEncoder_palettes detailed p = (p0, orig)"
    by (cases "JsonEncoder_palettes detailed p")
  obtain r where r: "edit_all eng conf p0 (Palettes_palettes p0) = (r, conf)"
    using edit_all_conf [of eng conf p0 "Palettes_palettes p0"]
    by (cases "edit_all eng conf p0 (Palettes_palettes p0)") simp
  have "edit_all eng (conf\<lparr>edits := []\<rparr>) p0 (Palettes_palettes p0) = (r, conf\<lparr>edits := []\<rparr>)"
    using edit_all_no_selector [OF assms, of eng p0 "Palettes_palettes p0"] r
      edit_all_conf [of eng "conf\<lparr>edits := []\<rparr>" p0 "Palettes_palettes p0"]
    by (cases "edit_all eng (conf\<lparr>edits := []\<rparr>) p0 (Palettes_palettes p0)") simp
  with o r show ?thesis by (simp add: main_def)
qed

lemma round_trips_settled:
  assumes "round_trips eng space c"
  shows "convert eng (color c) space = Inr (color (settled eng space c))"
    and "Color_update eng (settled eng space c) = Inr (settled eng space c)"
proof -
  from assms obtain w where w: "convert eng (color c) space = Inr w"
    by (cases "convert eng (color c) space") (auto simp: round_trips_def)
  with assms obtain w' where w': "convert eng w ''srgb'' = Inr w'"
    by (cases "convert eng w ''srgb''") (auto simp: round_trips_def)
  with assms w have s: "to_string eng w' = Inr (hex c)"
    by (simp add: round_trips_def)
  from w show "convert eng (color c) space = Inr (color (settled eng space c))"
    by (simp add: settled_def)
  from w w' s show "Color_update eng (settled eng space c) = Inr (settled eng space c)"
    by (simp add: settled_def Color_update_def)
qed

lemma settled_color: "c\<lparr>color := color (settled eng space c)\<rparr> = settled eng space c"
  by (simp add: settled_def split: sum.splits)

lemma colors_settled:
  assumes "\<forall>c \<in> set (map snd cs). round_trips eng space c"
  shows "edit_colors eng space [] cs = Inr (map (\<lambda>(nm, c). (nm, settled eng space c)) cs)"
    and "update_colors eng (map (\<lambda>(nm, c). (nm, settled eng space c)) cs)
           = Inr (map (\<lambda>(nm, c). (nm, settled eng space c)) cs)"
  using assms
proof (induction cs)
  case Nil
  case 1 show ?case by simp
  case 2 show ?case by simp
next
  case (Cons entry cs)
  obtain nm c where entry: "entry = (nm, c)" by (cases entry)
  case 1
  with entry have rt: "round_trips eng space c" by simp
  from 1 Cons.IH(1) have "edit_colors eng space [] cs = Inr (map (\<lambda>(nm, c). (nm, settled eng space c)) cs)"
    by simp
  with round_trips_settled(1) [OF rt] entry show ?case
    by (simp add: settled_color)
  case 2
  with entry have rt: "round_trips eng space c" by simp
  from 2 Cons.IH(2) have "update_colors eng (map (\<lambda>(nm, c). (nm, settled eng space c)) cs)
           = Inr (map (\<lambda>(nm, c). (nm, settled eng space c)) cs)"
    by simp
  with round_trips_settled(2) [OF rt] entry show ?case by simp
qed

lemma Palette_edit_settled:
  assumes "\<forall>e \<in> set (edits conf). no_selector e"
    and "\<forall>c \<in> set (map snd (colors self)). round_trips eng (color_space conf) c"
  shows "Palette_edit eng self conf = (Inr (settled_variant eng (color_space conf) self), conf)"
proof -
  have "edit_colors eng (color_space conf) (variant_edits conf self) (colors self)
      = edit_colors eng (color_space conf) [] (colors self)"
    by (rule edit_colors_no_selector [OF variant_edits_no_selector [OF assms(1)]])
  with colors_settled [OF assms(2)] show ?thesis
    by (simp add: Palette_edit_def settled_variant_def)
qed

lemma settled_view:
  "map entry_view (colors (settled_variant eng space v)) = map entry_view (colors v)"
  by (auto simp: settled_variant_def entry_view_def settled_def split: sum.splits)

lemma settled_hex_ff: "hex_ff (colors (settled_variant eng space v)) = hex_ff (colors v)"
  by (auto simp: settled_variant_def hex_ff_def settled_def split: sum.splits)

lemma stays_settled: "stays eng space c \<Longrightarrow> settled eng space c = c"
  by (simp add: stays_def settled_def)

lemma stays_settled_variant:
  assumes "\<forall>c \<in> set (map snd (colors v)). stays eng space c"
  shows "settled_variant eng space v = v"
proof -
  have "map (\<lambda>(nm, c). (nm, settled eng space c)) (colors v) = map (\<lambda>x. x) (colors v)"
    using assms by (intro map_cong) (auto simp: stays_settled)
  then show ?thesis by (simp add: settled_variant_def)
qed

lemma all_colors_eq:
  "all_colors p = map snd (colors (latte p)) @ map snd (colors (frappe p))
      @ map snd (colors (macchiato p)) @ map snd (colors (mocha p))"
  by (simp add: all_colors_def Palettes_palettes_eq)

lemma edit_all_settled:
  assumes "\<forall>e \<in> set (edits conf). no_selector e"
    and "\<forall>c \<in> set (all_colors p). round_trips eng (color_space conf) c"
  shows "edit_all eng conf p (Palettes_palettes p)
      = (Inr (settled_palettes eng (color_space conf) p), conf)"
proof -
  from assms(2) have rt:
    "\<forall>c \<in> set (map snd (colors (latte p))). round_trips eng (color_space conf) c"
    "\<forall>c \<in> set (map snd (colors (frappe p))). round_trips eng (color_space conf) c"
    "\<forall>c \<in> set (map snd (colors (macchiato p))). round_trips eng (color_space conf) c"
    "\<forall>c \<in> set (map snd (colors (mocha p))). round_trips eng (color_space conf) c"
    by (simp_all add: all_colors_eq)
  show ?thesis
    by (simp add: Palettes_palettes_eq setattr_Palette_def settled_palettes_def
        Palette_edit_settled [OF assms(1) rt(1)] Palette_edit_settled [OF assms(1) rt(2)]
        Palette_edit_settled [OF assms(1) rt(3)] Palette_edit_settled [OF assms(1) rt(4)])
qed

lemma flatten_settled:
  "JsonEncoder_palettes False (settled_palettes eng space p)
     = (settled_palettes eng space p, snd (JsonEncoder_palettes False p))"
proof -
  have "JsonEncoder_palettes False q =
      (q, Flattened (version q)
        [(''latte'', hex_ff (colors (latte q))), (''frappe'', hex_ff (colors (frappe q))),
         (''macchiato'', hex_ff (colors (macchiato q))), (''mocha'', hex_ff (colors (mocha q)))])"
    for q :: "'a Color Palettes"
    by (simp add: JsonEncoder_palettes_def flatten_palettes)
  then show ?thesis
    by (simp add: settled_palettes_def settled_hex_ff)
qed

text \<open>
  C6, amended. If no rule of the configuration has a selector, no rule is applied:
  \<^verbatim>\<open>Palette.edit\<close> and \<^verbatim>\<open>main\<close> do what they do with an empty list of rules. If moreover
  every color round-trips through the engine, \<^verbatim>\<open>Palette.edit\<close> returns, each color keeps
  its name, hex string and accent flag and has the converted working value, and the
  flattened snapshots are equal. The detailed snapshots are equal if the conversion
  also gives every working value back.
\<close>

theorem bare_rules_change_nothing:
  assumes "\<forall>e \<in> set (edits conf). no_selector e"
  shows "fst (Palette_edit eng self conf) = fst (Palette_edit eng self (conf\<lparr>edits := []\<rparr>))
   \<and> main eng detailed conf p = main eng detailed (conf\<lparr>edits := []\<rparr>) p
   \<and> ((\<forall>c \<in> set (map snd (colors self)). round_trips eng (color_space conf) c) \<longrightarrow>
         Palette_edit eng self conf = (Inr (settled_variant eng (color_space conf) self), conf)
         \<and> map entry_view (colors (settled_variant eng (color_space conf) self))
             = map entry_view (colors self))
   \<and> ((\<forall>c \<in> set (all_colors p). round_trips eng (color_space conf) c) \<longrightarrow>
         main eng False conf p =
           Inr (snd (JsonEncoder_palettes False p), snd (JsonEncoder_palettes False p),
                settled_palettes eng (color_space conf) p)
         \<and> main eng True conf p =
             Inr (Detailed p, Detailed (settled_palettes eng (color_space conf) p),
                  settled_palettes eng (color_space conf) p))
   \<and> ((\<forall>c \<in> set (all_colors p).
          round_trips eng (color_space conf) c \<and> stays eng (color_space conf) c) \<longrightarrow>
         settled_palettes eng (color_space conf) p = p
         \<and> main eng True conf p = Inr (Detailed p, Detailed p, p))"
proof -
  have flat: "main eng False conf p =
           Inr (snd (JsonEncoder_palettes False p), snd (JsonEncoder_palettes False p),
                settled_palettes eng (color_space conf) p)"
    and det: "main eng True conf p =
             Inr (Detailed p, Detailed (settled_palettes eng (color_space conf) p),
                  settled_palettes eng (color_space conf) p)"
    if rt: "\<forall>c \<in> set (all_colors p). round_trips eng (color_space conf) c"
  proof -
    have o: "JsonEncoder_palettes False p = (p, snd (JsonEncoder_palettes False p))"
      by (simp add: JsonEncoder_palettes_def flatten_palettes)
    show "main eng False conf p =
           Inr (snd (JsonEncoder_palettes False p), snd (JsonEncoder_palettes False p),
                settled_palettes eng (color_space conf) p)"
      unfolding main_def
      by (subst o) (simp add: edit_all_settled [OF assms rt] flatten_settled)
    show "main eng True conf p =
             Inr (Detailed p, Detailed (settled_palettes eng (color_space conf) p),
                  settled_palettes eng (color_space conf) p)"
      by (simp add: main_def JsonEncoder_palettes_def edit_all_settled [OF assms rt])
  qed
  have same: "settled_palettes eng (color_space conf) p = p"
    if "\<forall>c \<in> set (all_colors p). stays eng (color_space conf) c"
  proof -
    from that have
      "\<forall>c \<in> set (map snd (colors (latte p))). stays eng (color_space conf) c"
      "\<forall>c \<in> set (map snd (colors (frappe p))). stays eng (color_space conf) c"
      "\<forall>c \<in> set (map snd (colors (macchiato p))). stays eng (color_space conf) c"
      "\<forall>c \<in> set (map snd (colors (mocha p))). stays eng (color_space conf) c"
      by (simp_all add: all_colors_eq)
    then show ?thesis
      by (simp add: settled_palettes_def stays_settled_variant)
  qed
  from Palette_edit_no_selector [OF assms] main_no_selector [OF assms]
    Palette_edit_settled [OF assms] settled_view flat det same
  show ?thesis by (metis (no_types, lifting))
qed

lemma demo_bare: "\<forall>e \<in> set (edits (demo_conf [rule_bare])). no_selector e"
  "\<forall>e \<in> set (edits (okhsv_conf [rule_bare])). no_selector e"
  by (simp_all add: demo_conf_def okhsv_conf_def rule_bare_def no_selector_def)

lemma demo_all_colors: "all_colors (demo_palettes h) = [demo_red h, demo_red h, demo_red h, demo_red h]"
  by (simp add: all_colors_eq demo_palettes_def demo_variant_def)

lemma demo_red_round_trips:
  "round_trips demo_engine ''okhsl'' (demo_red ''#ff0000'')"
  "stays demo_engine ''okhsl'' (demo_red ''#ff0000'')"
  by (simp_all add: round_trips_def stays_def demo_engine_def demo_red_def lower_hex_def)

lemma demo_edit_bare:
  "Palette_edit demo_engine (demo_variant n d h) (demo_conf [rule_bare]) =
     (Inr (demo_variant n d (map lower_hex h)), demo_conf [rule_bare])"
  by (simp add: Palette_edit_def variant_edits_def demo_conf_def
      demo_variant_def demo_red_def demo_engine_def rule_bare_def edit_applies_def
      Color_update_def lower_hex_def)

lemma demo_flatten:
  "JsonEncoder_palettes False (demo_palettes h) = (demo_palettes h, flat_reds (h @ ''ff''))"
proof -
  have "hex_ff (colors (demo_variant n d h)) = [(''red'', h @ ''ff'')]" for n d
    by (simp add: hex_ff_def demo_variant_def demo_red_def)
  then have "flatten_slots (demo_palettes h) (Palettes_palettes (demo_palettes h)) =
      (demo_palettes h,
       [(''latte'', [(''red'', h @ ''ff'')]), (''frappe'', [(''red'', h @ ''ff'')]),
        (''macchiato'', [(''red'', h @ ''ff'')]), (''mocha'', [(''red'', h @ ''ff'')])])"
    unfolding flatten_palettes by (simp add: demo_palettes_def)
  moreover have "version (demo_palettes h) = ''1''"
    by (simp add: demo_palettes_def)
  ultimately show ?thesis
    by (simp add: JsonEncoder_palettes_def flat_reds_def)
qed

lemma demo_edit_all_bare:
  "edit_all demo_engine (demo_conf [rule_bare]) (demo_palettes h) (Palettes_palettes (demo_palettes h)) =
     (Inr (demo_palettes (map lower_hex h)), demo_conf [rule_bare])"
proof -
  have "Palettes_palettes (demo_palettes h) =
      [(''latte'', demo_variant ''Latte'' False h), (''frappe'', demo_variant ''Frappe'' True h),
       (''macchiato'', demo_variant ''Macchiato'' True h), (''mocha'', demo_variant ''Mocha'' True h)]"
    unfolding Palettes_palettes_eq by (simp add: demo_palettes_def)
  then show ?thesis
    by (simp add: demo_edit_bare setattr_Palette_def demo_palettes_def)
qed

lemma demo_main_bare:
  "main demo_engine False (demo_conf [rule_bare]) (demo_palettes h) =
     Inr (flat_reds (h @ ''ff''), flat_reds (map lower_hex h @ ''ff''), demo_palettes (map lower_hex h))"
  by (simp add: main_def demo_flatten demo_edit_all_bare)

theorem bare_rules_change_nothing_witness:
  "list_all no_selector (edits (demo_conf [rule_bare]))
   \<and> list_all (\<lambda>c. round_trips demo_engine (color_space (demo_conf [rule_bare])) c
                  \<and> stays demo_engine (color_space (demo_conf [rule_bare])) c)
        (all_colors (demo_palettes ''#ff0000''))
   \<and> Palette_edit demo_engine (demo_variant ''Latte'' False ''#ff0000'') (demo_conf [rule_bare])
       = (Inr (demo_variant ''Latte'' False ''#ff0000''), demo_conf [rule_bare])
   \<and> main demo_engine False (demo_conf [rule_bare]) (demo_palettes ''#ff0000'') =
        Inr (flat_reds ''#ff0000ff'', flat_reds ''#ff0000ff'', demo_palettes ''#ff0000'')
   \<and> main demo_engine True (demo_conf [rule_bare]) (demo_palettes ''#ff0000'') =
        Inr (Detailed (demo_palettes ''#ff0000''), Detailed (demo_palettes ''#ff0000''),
             demo_palettes ''#ff0000'')"
proof -
  have sp: "color_space (demo_conf [rule_bare]) = ''okhsl''"
    by (simp add: demo_conf_def)
  have b: "\<forall>c \<in> set (all_colors (demo_palettes ''#ff0000'')).
      round_trips demo_engine (color_space (demo_conf [rule_bare])) c
      \<and> stays demo_engine (color_space (demo_conf [rule_bare])) c"
    by (simp add: demo_all_colors sp demo_red_round_trips)
  then have b': "\<forall>c \<in> set (all_colors (demo_palettes ''#ff0000'')).
      round_trips demo_engine (color_space (demo_conf [rule_bare])) c"
    by blast
  have c: "\<forall>c \<in> set (map snd (colors (demo_variant ''Latte'' False ''#ff0000''))).
      round_trips demo_engine (color_space (demo_conf [rule_bare])) c"
    by (simp add: demo_variant_def sp demo_red_round_trips)
  have f: "snd (JsonEncoder_palettes False (demo_palettes ''#ff0000'')) = flat_reds ''#ff0000ff''"
    by (simp add: demo_flatten)
  have v: "settled_variant demo_engine (color_space (demo_conf [rule_bare]))
      (demo_variant ''Latte'' False ''#ff0000'') = demo_variant ''Latte'' False ''#ff0000''"
    by (simp add: settled_variant_def settled_def sp demo_variant_def demo_red_def demo_engine_def)
  note t = bare_rules_change_nothing [OF demo_bare(1), of demo_engine
      "demo_variant ''Latte'' False ''#ff0000''" _ "demo_palettes ''#ff0000''"]
  from t c v have 1: "Palette_edit demo_engine (demo_variant ''Latte'' False ''#ff0000'') (demo_conf [rule_bare])
       = (Inr (demo_variant ''Latte'' False ''#ff0000''), demo_conf [rule_bare])"
    by metis
  from t b have s: "settled_palettes demo_engine (color_space (demo_conf [rule_bare]))
      (demo_palettes ''#ff0000'') = demo_palettes ''#ff0000''"
    and 3: "main demo_engine True (demo_conf [rule_bare]) (demo_palettes ''#ff0000'') =
        Inr (Detailed (demo_palettes ''#ff0000''), Detailed (demo_palettes ''#ff0000''),
             demo_palettes ''#ff0000'')"
    by blast+
  from t b' have "main demo_engine False (demo_conf [rule_bare]) (demo_palettes ''#ff0000'') =
           Inr (snd (JsonEncoder_palettes False (demo_palettes ''#ff0000'')),
                snd (JsonEncoder_palettes False (demo_palettes ''#ff0000'')),
                settled_palettes demo_engine (color_space (demo_conf [rule_bare]))
                  (demo_palettes ''#ff0000''))"
    by blast
  then have 2: "main demo_engine False (demo_conf [rule_bare]) (demo_palettes ''#ff0000'') =
        Inr (flat_reds ''#ff0000ff'', flat_reds ''#ff0000ff'', demo_palettes ''#ff0000'')"
    by (simp only: f s)
  from demo_bare(1) b 1 2 3 show ?thesis by (simp add: list_all_iff)
qed

lemma space_all_colors:
  "all_colors (space_palettes sp h) = [space_red sp h, space_red sp h, space_red sp h, space_red sp h]"
  by (simp add: all_colors_eq space_palettes_def space_variant_def)

lemma space_red_round_trips:
  "round_trips space_engine ''okhsv'' (space_red ''okhsl'' ''#ff0000'')"
  by (simp add: round_trips_def space_engine_def space_red_def lower_hex_def)

lemma space_settled:
  "settled_palettes space_engine ''okhsv'' (space_palettes ''okhsl'' ''#ff0000'')
     = space_palettes ''okhsv'' ''#ff0000''"
  by (simp add: settled_palettes_def settled_variant_def settled_def space_palettes_def
      space_variant_def space_red_def space_engine_def)

lemma space_main_detailed:
  "main space_engine True (okhsv_conf [rule_bare]) (space_palettes ''okhsl'' ''#ff0000'') =
     Inr (Detailed (space_palettes ''okhsl'' ''#ff0000''),
          Detailed (space_palettes ''okhsv'' ''#ff0000''),
          space_palettes ''okhsv'' ''#ff0000'')"
proof -
  have sp: "color_space (okhsv_conf [rule_bare]) = ''okhsv''"
    by (simp add: okhsv_conf_def)
  have rt: "\<forall>c \<in> set (all_colors (space_palettes ''okhsl'' ''#ff0000'')).
      round_trips space_engine (color_space (okhsv_conf [rule_bare])) c"
    by (simp add: space_all_colors sp space_red_round_trips)
  from edit_all_settled [OF demo_bare(2) rt]
  show ?thesis
    by (simp add: main_def JsonEncoder_palettes_def sp space_settled)
qed

text \<open>
  C6 as stated fails twice. With the hex string \<open>#FF0000\<close> in the input and one rule
  without selectors, the original snapshot shows \<open>#FF0000ff\<close> and the customized one
  \<open>#ff0000ff\<close>, because the commit prints the color anew. With the configured space
  \<open>okhsv\<close> and detailed output, the customized snapshot shows the working values in
  \<open>okhsv\<close> and the original one in \<open>okhsl\<close>, although every hex string is kept.
\<close>

theorem bare_rules_counterexample:
  "Color_post_init demo_engine \<lparr>hex = ''#FF0000'', accent = True, color = (''#00000000'', Finite 0)\<rparr>
     = Inr (demo_red ''#FF0000'')
   \<and> edits (demo_conf [rule_bare]) = [rule_bare] \<and> no_selector rule_bare
   \<and> main demo_engine False (demo_conf [rule_bare]) (demo_palettes ''#FF0000'') =
        Inr (flat_reds ''#FF0000ff'', flat_reds ''#ff0000ff'', demo_palettes ''#ff0000'')
   \<and> flat_reds ''#FF0000ff'' \<noteq> flat_reds ''#ff0000ff''
   \<and> hex (demo_red ''#FF0000'') \<noteq> hex (demo_red ''#ff0000'')
   \<and> Color_post_init space_engine
        \<lparr>hex = ''#ff0000'', accent = True, color = (''okhsl'', ''#00000000'', Finite 0)\<rparr>
     = Inr (space_red ''okhsl'' ''#ff0000'')
   \<and> edits (okhsv_conf [rule_bare]) = [rule_bare]
   \<and> round_trips space_engine (color_space (okhsv_conf [rule_bare])) (space_red ''okhsl'' ''#ff0000'')
   \<and> main space_engine True (okhsv_conf [rule_bare]) (space_palettes ''okhsl'' ''#ff0000'') =
        Inr (Detailed (space_palettes ''okhsl'' ''#ff0000''),
             Detailed (space_palettes ''okhsv'' ''#ff0000''),
             space_palettes ''okhsv'' ''#ff0000'')
   \<and> Detailed (space_palettes ''okhsl'' ''#ff0000'') \<noteq> Detailed (space_palettes ''okhsv'' ''#ff0000'')
   \<and> color (space_red ''okhsl'' ''#ff0000'') \<noteq> color (space_red ''okhsv'' ''#ff0000'')"
proof -
  have "Color_post_init demo_engine \<lparr>hex = ''#FF0000'', accent = True, color = (''#00000000'', Finite 0)\<rparr>
     = Inr (demo_red ''#FF0000'')"
    by (simp add: Color_post_init_def demo_engine_def demo_red_def)
  moreover have "edits (demo_conf [rule_bare]) = [rule_bare] \<and> no_selector rule_bare"
    by (simp add: demo_conf_def rule_bare_def no_selector_def)
  moreover have "main demo_engine False (demo_conf [rule_bare]) (demo_palettes ''#FF0000'') =
        Inr (flat_reds ''#FF0000ff'', flat_reds ''#ff0000ff'', demo_palettes ''#ff0000'')"
    using demo_main_bare [of "''#FF0000''"] by (simp add: lower_hex_def)
  moreover have "flat_reds ''#FF0000ff'' \<noteq> flat_reds ''#ff0000ff''"
    by (simp add: flat_reds_def)
  moreover have "hex (demo_red ''#FF0000'') \<noteq> hex (demo_red ''#ff0000'')"
    by (simp add: demo_red_def)
  moreover have "Color_post_init space_engine
        \<lparr>hex = ''#ff0000'', accent = True, color = (''okhsl'', ''#00000000'', Finite 0)\<rparr>
     = Inr (space_red ''okhsl'' ''#ff0000'')"
    by (simp add: Color_post_init_def space_engine_def space_red_def)
  moreover have "edits (okhsv_conf [rule_bare]) = [rule_bare]"
    by (simp add: okhsv_conf_def)
  moreover have "round_trips space_engine (color_space (okhsv_conf [rule_bare])) (space_red ''okhsl'' ''#ff0000'')"
    by (simp add: okhsv_conf_def space_red_round_trips)
  moreover note space_main_detailed
  moreover have "color (space_red ''okhsl'' ''#ff0000'') \<noteq> color (space_red ''okhsv'' ''#ff0000'')"
    by (simp add: space_red_def)
  moreover from this have "Detailed (space_palettes ''okhsl'' ''#ff0000'') \<noteq> Detailed (space_palettes ''okhsv'' ''#ff0000'')"
    by (auto simp: space_palettes_def space_variant_def space_red_def)
  ultimately show ?thesis by (simp only: simp_thms)
qed

end
